theory Spec2Isabelle
  imports Main
begin

section \<open>The world the image compressor runs in\<close>

text \<open>
  The program under study is \<^verbatim>\<open>src/compressor.py\<close>: the class \<^verbatim>\<open>ImageProcessor\<close>
  with its tool runner, its encoders, the quality search and \<^verbatim>\<open>process_file\<close>.
  Everything the Python does to its surroundings is made explicit here. The filesystem is
  a map from paths to file contents; the log written by \<^verbatim>\<open>log_error\<close> and the commands
  handed to \<^verbatim>\<open>subprocess.run\<close> are lists that only grow; the random names of
  \<^verbatim>\<open>tempfile\<close> and \<^verbatim>\<open>uuid\<close> come from a counter. The external encoders and the image
  library (Pillow) are not part of the repository: they are fields of an environment
  record, arbitrary functions about which nothing is assumed.
  Strings are byte strings, so a character outside ASCII is a byte above 127; the
  output of a tool is taken as text as it stands. The filesystem map has files only:
  a write never fails for want of a directory.
\<close>

type_synonym path = string
type_synonym bytes = "nat list"

datatype exn =
    FileNotFoundError string
  | SameFileError string
  | KeyError string
  | ImageError string
  | OtherError string

text \<open>
  \<^verbatim>\<open>str(e)\<close>: a \<^verbatim>\<open>FileNotFoundError\<close> carries the path and a \<^verbatim>\<open>KeyError\<close> the key,
  both printed in quotes; the other exceptions carry their message.
\<close>

definition quoted :: "string \<Rightarrow> string" where
  "quoted s = CHR 0x27 # s @ [CHR 0x27]"

fun str_exn :: "exn \<Rightarrow> string" where
  "str_exn (FileNotFoundError p) = ''[Errno 2] No such file or directory: '' @ quoted p"
| "str_exn (SameFileError p) = quoted p @ '' and '' @ quoted p @ '' are the same file''"
| "str_exn (KeyError k) = quoted k"
| "str_exn (ImageError m) = m"
| "str_exn (OtherError m) = m"

text \<open>The outcome of \<^verbatim>\<open>subprocess.run(command, check=False, capture_output=True)\<close>.\<close>

datatype proc =
    Completed (returncode: int) (stdout: string) (stderr: string)
  | Raised exn

text \<open>
  What the program reads from a Pillow image: \<^verbatim>\<open>img.mode\<close>,
  \<^verbatim>\<open>'transparency' in img.info\<close>, \<^verbatim>\<open>img.getbands()\<close> and
  \<^verbatim>\<open>img.getchannel('A').getdata()\<close>, which decodes the pixel data and so may raise.
\<close>

record image =
  mode :: string
  info_transparency :: bool
  getbands :: "string list"
  getchannel_A_getdata :: "exn + nat list"
  pixels :: bytes

record save_options =
  so_quality :: "int option"
  so_format :: "string option"
  so_sizes :: "(int \<times> int) list"

record env =
  base_path :: path
  tool_exists :: "path \<Rightarrow> bool"
  tempdir :: path
  rand_hex :: "nat \<Rightarrow> string"
  subprocess_run :: "string list \<Rightarrow> (path \<rightharpoonup> bytes) \<Rightarrow> proc \<times> (path \<rightharpoonup> bytes)"
  image_decode :: "bytes \<Rightarrow> exn + image"
  image_convert :: "image \<Rightarrow> string \<Rightarrow> exn + image"
  image_resize :: "image \<Rightarrow> int \<Rightarrow> int \<Rightarrow> exn + image"
  image_encode :: "image \<Rightarrow> path \<Rightarrow> save_options \<Rightarrow> exn + bytes"

record world =
  files :: "path \<rightharpoonup> bytes"
  seed :: nat
  log :: "string list"
  calls :: "string list list"

subsection \<open>os.path, with POSIX separators\<close>

text \<open>
  The functions of \<^verbatim>\<open>os.path\<close> that the program calls, with the slash as the only
  separator (\<^verbatim>\<open>posixpath\<close>). No property below depends on the separator.
\<close>

definition basename :: "path \<Rightarrow> path" where
  "basename p = rev (takeWhile (\<lambda>c. c \<noteq> CHR ''/'') (rev p))"

definition head_part :: "path \<Rightarrow> path" where
  "head_part p = rev (dropWhile (\<lambda>c. c \<noteq> CHR ''/'') (rev p))"

definition rstrip_char :: "char \<Rightarrow> string \<Rightarrow> string" where
  "rstrip_char c s = rev (dropWhile (\<lambda>x. x = c) (rev s))"

definition strip_char :: "char \<Rightarrow> string \<Rightarrow> string" where
  "strip_char c s = rstrip_char c (dropWhile (\<lambda>x. x = c) s)"

definition dirname :: "path \<Rightarrow> path" where
  "dirname p =
     (let head = head_part p
      in if head \<noteq> [] \<and> \<not> list_all (\<lambda>c. c = CHR ''/'') head
         then rstrip_char (CHR ''/'') head else head)"

definition join :: "path \<Rightarrow> path \<Rightarrow> path" where
  "join a b =
     (if b \<noteq> [] \<and> hd b = CHR ''/'' then b
      else if a = [] \<or> last a = CHR ''/'' then a @ b
      else a @ ''/'' @ b)"

definition splitext :: "path \<Rightarrow> path \<times> string" where
  "splitext p =
     (let b = basename p;
          ext = rev (takeWhile (\<lambda>c. c \<noteq> CHR ''.'') (rev b));
          stem = rev (tl (dropWhile (\<lambda>c. c \<noteq> CHR ''.'') (rev b)))
      in if CHR ''.'' \<in> set b \<and> \<not> list_all (\<lambda>c. c = CHR ''.'') stem
         then (head_part p @ stem, CHR ''.'' # ext)
         else (p, []))"

definition lower_char :: "char \<Rightarrow> char" where
  "lower_char c =
     (let n = (of_char c :: nat)
      in if 65 \<le> n \<and> n \<le> 90 then char_of (n + 32) else c)"

definition lower :: "string \<Rightarrow> string" where
  "lower s = map lower_char s"

definition remove_dots :: "string \<Rightarrow> string" where
  "remove_dots s = filter (\<lambda>c. c \<noteq> CHR ''.'') s"

subsection \<open>Filesystem primitives\<close>

definition path_exists :: "world \<Rightarrow> path \<Rightarrow> bool" where
  "path_exists w p = (files w p \<noteq> None)"

definition os_remove :: "world \<Rightarrow> path \<Rightarrow> exn + world" where
  "os_remove w p =
     (case files w p of
        None \<Rightarrow> Inl (FileNotFoundError p)
      | Some _ \<Rightarrow> Inr (w\<lparr>files := (files w)(p := None)\<rparr>))"

definition copy2 :: "world \<Rightarrow> path \<Rightarrow> path \<Rightarrow> exn + world" where
  "copy2 w src dst =
     (case files w src of
        None \<Rightarrow> Inl (FileNotFoundError src)
      | Some bs \<Rightarrow>
          if src = dst then Inl (SameFileError src)
          else Inr (w\<lparr>files := (files w)(dst \<mapsto> bs)\<rparr>))"

definition move :: "world \<Rightarrow> path \<Rightarrow> path \<Rightarrow> exn + world" where
  "move w src dst =
     (case files w src of
        None \<Rightarrow> Inl (FileNotFoundError src)
      | Some bs \<Rightarrow>
          if src = dst then Inr w
          else Inr (w\<lparr>files := (files w)(dst \<mapsto> bs, src := None)\<rparr>))"

text \<open>
  \<^verbatim>\<open>tempfile.NamedTemporaryFile(suffix=s, delete=False)\<close> creates an empty file under a
  random name in the temporary directory and returns the name; \<^verbatim>\<open>uuid.uuid4().hex\<close>
  is the next random string. The name is \<^verbatim>\<open>tmp\<close>, eight random characters and the
  suffix. The call raises when the suffix cannot end a file name: with a path separator
  in it the name points into a directory that does not exist, and beyond 244 characters
  the name is longer than the 255 a file name may have. \<open>named_temporary_file\<close> is the
  creation; \<open>named_temporary_file_or_raise\<close> is the call with its failure. The suffix
  \<^verbatim>\<open>.tmp\<close> of the quality search is usable, so there the creation is written directly.
\<close>

definition named_temporary_file :: "env \<Rightarrow> world \<Rightarrow> string \<Rightarrow> path \<times> world" where
  "named_temporary_file e w suffix =
     (let name = join (tempdir e) (''tmp'' @ rand_hex e (seed w) @ suffix)
      in (name, w\<lparr>files := (files w)(name \<mapsto> []), seed := Suc (seed w)\<rparr>))"


definition named_temporary_file_or_raise ::
  "env \<Rightarrow> world \<Rightarrow> string \<Rightarrow> exn + path \<times> world" where
  "named_temporary_file_or_raise e w suffix =
     (if CHR ''/'' \<in> set suffix
      then Inl (FileNotFoundError (join (tempdir e) (''tmp'' @ rand_hex e (seed w) @ suffix)))
      else if length suffix > 244
      then Inl (OtherError ''[Errno 36] File name too long'')
      else Inr (named_temporary_file e w suffix))"

definition uuid4_hex :: "env \<Rightarrow> world \<Rightarrow> string \<times> world" where
  "uuid4_hex e w = (rand_hex e (seed w), w\<lparr>seed := Suc (seed w)\<rparr>)"

definition log_error :: "world \<Rightarrow> string \<Rightarrow> world" where
  "log_error w message = w\<lparr>log := log w @ [message]\<rparr>"

section \<open>QualitySearch: find\_best\_quality\<close>

text \<open>
  Lines 119 to 134. The encode function is a parameter. Both functions the program passes
  (\<^verbatim>\<open>compress_jpeg\<close>, \<^verbatim>\<open>compress_webp\<close>) return a pair on every path, so the parameter
  is a function from the world to a pair and a new world. One round of the loop body is
  \<open>probe_step\<close>; besides the new search state it returns a record of what the probe
  saw, which the code does not read and which only serves to state properties.
\<close>

type_synonym compress_func = "world \<Rightarrow> path \<Rightarrow> path \<Rightarrow> int \<Rightarrow> (bool \<times> string) \<times> world"

record search =
  low :: int
  high :: int
  best_quality :: int

record probe =
  probe_q :: int
  probe_success :: bool
  probe_size :: "nat option"

definition probe_step ::
  "env \<Rightarrow> compress_func \<Rightarrow> path \<Rightarrow> int \<Rightarrow> search \<times> world \<Rightarrow> (search \<times> world) \<times> probe" where
  "probe_step e compress_func in_path target_bytes sw =
     (let s = fst sw;
          q = (low s + high s) div 2;
          (temp_out_name, w1) = named_temporary_file e (snd sw) ''.tmp'';
          (r, w2) = compress_func w1 in_path temp_out_name q;
          is_success = fst r;
          s' = (if is_success \<and> path_exists w2 temp_out_name then
                  (case files w2 temp_out_name of
                     Some bs \<Rightarrow>
                       if int (length bs) \<le> target_bytes
                       then s\<lparr>low := q + 1, best_quality := q\<rparr>
                       else s\<lparr>high := q - 1\<rparr>
                   | None \<Rightarrow> s\<lparr>high := q - 1\<rparr>)
                else s\<lparr>high := q - 1\<rparr>);
          w3 = (if path_exists w2 temp_out_name
                then w2\<lparr>files := (files w2)(temp_out_name := None)\<rparr> else w2)
      in ((s', w3),
          \<lparr>probe_q = q, probe_success = is_success,
           probe_size = map_option length (files w2 temp_out_name)\<rparr>))"

fun fbq_loop ::
  "nat \<Rightarrow> env \<Rightarrow> compress_func \<Rightarrow> path \<Rightarrow> int \<Rightarrow> search \<times> world \<Rightarrow> (search \<times> world) \<times> probe list" where
  "fbq_loop 0 e cf in_path tb sw = (sw, [])"
| "fbq_loop (Suc n) e cf in_path tb sw =
     (if low (fst sw) > high (fst sw) then (sw, [])
      else (let (sw', p) = probe_step e cf in_path tb sw;
                (sw'', ps) = fbq_loop n e cf in_path tb sw'
            in (sw'', p # ps)))"

text \<open>A probe is within budget when the encoder reported success and left a file of at
  most the target number of bytes, the test of lines 128 and 129.\<close>

definition within_budget :: "int \<Rightarrow> probe \<Rightarrow> bool" where
  "within_budget target_bytes p \<longleftrightarrow>
     probe_success p \<and> (case probe_size p of None \<Rightarrow> False | Some k \<Rightarrow> int k \<le> target_bytes)"

definition search_inv :: "search \<Rightarrow> bool" where
  "search_inv s \<longleftrightarrow> 1 \<le> low s \<and> high s \<le> 100 \<and>
     (best_quality s = -1 \<or> (1 \<le> best_quality s \<and> best_quality s \<le> 100))"

definition find_best_quality ::
  "env \<Rightarrow> world \<Rightarrow> path \<Rightarrow> int \<Rightarrow> compress_func \<Rightarrow> int \<times> world \<times> probe list" where
  "find_best_quality e w in_path target_kb compress_func =
     (let target_bytes = target_kb * 1024;
          (sw, ps) = fbq_loop 8 e compress_func in_path target_bytes
                       (\<lparr>low = 1, high = 100, best_quality = -1\<rparr>, w)
      in (if best_quality (fst sw) \<noteq> -1 then best_quality (fst sw) else 1, snd sw, ps))"


section \<open>ToolRunner and the encoders\<close>

subsection \<open>Text helpers\<close>

definition digit_char :: "nat \<Rightarrow> char" where
  "digit_char d = char_of (48 + d)"

fun str_nat :: "nat \<Rightarrow> string" where
  "str_nat n = (if n < 10 then [digit_char n] else str_nat (n div 10) @ [digit_char (n mod 10)])"

declare str_nat.simps [simp del]

definition str_int :: "int \<Rightarrow> string" where
  "str_int i = (if i < 0 then CHR ''-'' # str_nat (nat (- i)) else str_nat (nat i))"

definition is_space :: "char \<Rightarrow> bool" where
  "is_space c \<longleftrightarrow> (of_char c :: nat) \<in> {9, 10, 11, 12, 13, 28, 29, 30, 31, 32}"

definition strip :: "string \<Rightarrow> string" where
  "strip s = rev (dropWhile is_space (rev (dropWhile is_space s)))"

definition already_optimized :: string where
  "already_optimized = ''Already Optimized''"

definition overwrite_format_error :: string where
  "overwrite_format_error = ''Cannot overwrite file when changing its format.''"

definition unsupported_type :: string where
  "unsupported_type = ''Unsupported file type''"

definition keep_original_format :: string where
  "keep_original_format = ''Keep Original''"

definition original_folder :: string where
  "original_folder = ''Original Folder''"

subsection \<open>get\_tool\_path and \_run\_tool (lines 65 to 102)\<close>

text \<open>
  The tools directory belongs to the installed program and no step of the program writes
  to it, so whether a tool binary exists is a field of the environment and not of the
  filesystem map. The warning dialog of \<^verbatim>\<open>get_tool_path\<close> and the status callback are
  user-interface effects and are left out.
\<close>

definition get_resource_path :: "env \<Rightarrow> path \<Rightarrow> path" where
  "get_resource_path e relative_path = join (base_path e) relative_path"

definition get_tool_path :: "env \<Rightarrow> world \<Rightarrow> string \<Rightarrow> path option \<times> world" where
  "get_tool_path e w tool_name =
     (let path = get_resource_path e (join ''tools'' tool_name)
      in if \<not> tool_exists e path
         then (None, log_error w (''Tool not found at expected path: '' @ path))
         else (Some path, w))"

text \<open>
  A command is the executable followed by its arguments; every caller builds it with the
  executable first, so it is passed here as two arguments. The command is appended to
  \<open>calls\<close> at the point where the source calls \<^verbatim>\<open>subprocess.run\<close>.
\<close>

definition run_tool :: "env \<Rightarrow> world \<Rightarrow> path \<Rightarrow> string list \<Rightarrow> (bool \<times> string) \<times> world" where
  "run_tool e w exe args =
     (let command = exe # args;
          tool_name = basename exe;
          (result, fs) = subprocess_run e command (files w);
          w1 = w\<lparr>files := fs, calls := calls w @ [command]\<rparr>
      in case result of
           Completed rc out err \<Rightarrow>
             if tool_name = ''pngquant.exe'' \<and> (rc = 98 \<or> rc = 99)
             then ((True, already_optimized), w1)
             else if rc \<noteq> 0 then
               (let stderr_msg = (if err \<noteq> [] then strip err else []);
                    stdout_msg = (if out \<noteq> [] then strip out else []);
                    error_output = (if stderr_msg \<noteq> [] then stderr_msg
                                    else if stdout_msg \<noteq> [] then stdout_msg
                                    else ''No output from tool.'');
                    full_error_msg = ''Error from '' @ tool_name @ '' (code '' @ str_int rc
                                     @ ''):'' @ [CHR 0x0A] @ error_output
                in ((False, full_error_msg), log_error w1 full_error_msg))
             else ((True, ''Success''), w1)
         | Raised (FileNotFoundError m) \<Rightarrow>
             ((False, ''Tool not found: '' @ tool_name),
              log_error w1 (''Tool not found: '' @ tool_name))
         | Raised ex \<Rightarrow>
             ((False, str_exn ex),
              log_error w1 (''An unexpected error occurred while running tool: '' @ str_exn ex)))"

subsection \<open>Opacity test (lines 103 to 110)\<close>

definition image_open :: "env \<Rightarrow> world \<Rightarrow> path \<Rightarrow> exn + image" where
  "image_open e w p =
     (case files w p of None \<Rightarrow> Inl (FileNotFoundError p) | Some bs \<Rightarrow> image_decode e bs)"

definition inspect_opaque :: "image \<Rightarrow> exn + bool" where
  "inspect_opaque img =
     (if mode img = ''P'' \<and> info_transparency img then Inr False
      else if ''A'' \<in> set (getbands img) then
        (case getchannel_A_getdata img of
           Inl ex \<Rightarrow> Inl ex
         | Inr samples \<Rightarrow> Inr (\<not> list_ex (\<lambda>pixel. pixel < 255) samples))
      else Inr True)"

definition is_png_fully_opaque :: "env \<Rightarrow> world \<Rightarrow> path \<Rightarrow> bool \<times> world" where
  "is_png_fully_opaque e w file_path =
     (case (case image_open e w file_path of
              Inl ex \<Rightarrow> Inl ex
            | Inr img \<Rightarrow> inspect_opaque img) of
        Inl ex \<Rightarrow>
          (False, log_error w (''Could not check transparency for '' @ basename file_path
                               @ '': '' @ str_exn ex))
      | Inr b \<Rightarrow> (b, w))"

subsection \<open>JPEG, WEBP and PNG encoders (lines 111 to 118 and 135 to 158)\<close>

definition compress_jpeg :: "env \<Rightarrow> compress_func" where
  "compress_jpeg e w in_path out_path quality =
     (case get_tool_path e w ''cjpeg.exe'' of
        (None, w1) \<Rightarrow> ((False, ''cjpeg.exe not found.''), w1)
      | (Some cjpeg_path, w1) \<Rightarrow>
          run_tool e w1 cjpeg_path
            [''-quality'', str_int quality, ''-progressive'', ''-outfile'', out_path, in_path])"

definition compress_webp :: "env \<Rightarrow> compress_func" where
  "compress_webp e w in_path out_path quality =
     (case get_tool_path e w ''cwebp.exe'' of
        (None, w1) \<Rightarrow> ((False, ''cwebp.exe not found.''), w1)
      | (Some cwebp_path, w1) \<Rightarrow>
          run_tool e w1 cwebp_path [''-q'', str_int quality, in_path, ''-o'', out_path])"

definition pngquant_args :: "string \<Rightarrow> path \<Rightarrow> path \<Rightarrow> string list" where
  "pngquant_args quality_range temp_path in_path =
     [''--force'', ''--strip'', ''--quality'', quality_range, ''--speed=1'', ''--output'',
      temp_path, in_path]"

definition zopflipng_args :: "path \<Rightarrow> path \<Rightarrow> string list" where
  "zopflipng_args src dst = [''-y'', ''--iterations=15'', src, dst]"

definition run_zopflipng ::
  "env \<Rightarrow> world \<Rightarrow> path \<Rightarrow> path \<Rightarrow> (exn + bool \<times> string) \<times> world" where
  "run_zopflipng e w src dst =
     (case get_tool_path e w ''zopflipng.exe'' of
        (None, w1) \<Rightarrow> (Inr (False, ''zopflipng.exe not found.''), w1)
      | (Some zopflipng_path, w1) \<Rightarrow>
          (let (r, w2) = run_tool e w1 zopflipng_path (zopflipng_args src dst)
           in (Inr r, w2)))"

text \<open>The body of the \<^verbatim>\<open>try\<close> block of \<^verbatim>\<open>compress_png\<close>, lines 140 to 156.\<close>

definition compress_png_try ::
  "env \<Rightarrow> world \<Rightarrow> path \<Rightarrow> path \<Rightarrow> path \<Rightarrow> string \<Rightarrow> bool \<Rightarrow> path
     \<Rightarrow> (exn + bool \<times> string) \<times> world" where
  "compress_png_try e w pngquant_path in_path out_path quality_range use_zopfli temp_path =
     (let (quant, w1) = run_tool e w pngquant_path (pngquant_args quality_range temp_path in_path);
          quant_success = fst quant;
          quant_msg = snd quant
      in if \<not> quant_success then (Inr (False, quant_msg), w1)
         else if quant_msg = already_optimized then
           (if \<not> use_zopfli then
              (case copy2 w1 in_path out_path of
                 Inl ex \<Rightarrow> (Inl ex, w1)
               | Inr w2 \<Rightarrow> (Inr (True, quant_msg), w2))
            else run_zopflipng e w1 in_path out_path)
         else if use_zopfli then run_zopflipng e w1 temp_path out_path
         else (Inr (True, ''Success''), w1))"

text \<open>Line 138: where the quantizer writes.\<close>

definition png_temp_path :: "env \<Rightarrow> path \<Rightarrow> bool \<Rightarrow> path" where
  "png_temp_path e out_path use_zopfli =
     (if \<not> use_zopfli then out_path
      else join (tempdir e) (''quant_'' @ basename out_path))"

definition compress_png ::
  "env \<Rightarrow> world \<Rightarrow> path \<Rightarrow> path \<Rightarrow> string \<Rightarrow> bool \<Rightarrow> (exn + bool \<times> string) \<times> world" where
  "compress_png e w in_path out_path quality_range use_zopfli =
     (let (pngquant_path, w1) = get_tool_path e w ''pngquant.exe'';
          (zopflipng_path, w2) = get_tool_path e w1 ''zopflipng.exe''
      in case (pngquant_path, zopflipng_path) of
           (Some pq, Some zp) \<Rightarrow>
             (let temp_path = png_temp_path e out_path use_zopfli;
                  (r, w3) = compress_png_try e w2 pq in_path out_path quality_range
                              use_zopfli temp_path
              in if use_zopfli \<and> path_exists w3 temp_path
                 then (case os_remove w3 temp_path of
                         Inl ex \<Rightarrow> (Inl ex, w3)
                       | Inr w4 \<Rightarrow> (r, w4))
                 else (r, w3))
         | _ \<Rightarrow> (Inr (False, ''PNG tools (pngquant/zopflipng) not found.''), w2))"


section \<open>StagingPipeline and FileOrchestrator\<close>

text \<open>
  The options dictionary holds booleans, integers and strings under fixed keys; a key may
  be missing, which \<^verbatim>\<open>options.get\<close> answers with its default and \<^verbatim>\<open>options[...]\<close>
  with a \<^verbatim>\<open>KeyError\<close>. Each key is a field holding an optional value.
\<close>

record options =
  opt_overwrite :: "bool option"
  opt_format :: "string option"
  opt_auto_convert_png :: "bool option"
  opt_output_dir :: "string option"
  opt_suffix :: "string option"
  opt_resize_enabled :: "bool option"
  opt_width :: "int option"
  opt_height :: "int option"
  opt_quality :: "int option"
  opt_mode :: "string option"
  opt_target_size :: "int option"
  opt_max_png :: "bool option"

definition truthy :: "bool option \<Rightarrow> bool" where
  "truthy b = (b = Some True)"

definition get_default :: "'a option \<Rightarrow> 'a \<Rightarrow> 'a" where
  "get_default v d = (case v of None \<Rightarrow> d | Some x \<Rightarrow> x)"

definition is_ascii :: "string \<Rightarrow> bool" where
  "is_ascii s = list_all (\<lambda>c. (of_char c :: nat) < 128) s"

text \<open>Lines 159 to 167. The call of \<^verbatim>\<open>logging.info\<close> writes nothing the program reads.\<close>

definition safe_copy_for_processing ::
  "env \<Rightarrow> world \<Rightarrow> path \<Rightarrow> (exn + path \<times> path option) \<times> world" where
  "safe_copy_for_processing e w file_path =
     (if is_ascii file_path then (Inr (file_path, None), w)
      else (let ext = snd (splitext file_path);
                (h, w1) = uuid4_hex e w;
                safe_name = ''temp_'' @ h @ ext;
                safe_path = join (tempdir e) safe_name
            in case copy2 w1 file_path safe_path of
                 Inl ex \<Rightarrow> (Inl ex, w1)
               | Inr w2 \<Rightarrow> (Inr (safe_path, Some safe_path), w2)))"

definition no_save_options :: save_options where
  "no_save_options = \<lparr>so_quality = None, so_format = None, so_sizes = []\<rparr>"

text \<open>
  \<^verbatim>\<open>img.save(path, ...)\<close>: the encoded bytes are written to the path, or the call raises
  and leaves no file behind.
\<close>

definition image_save :: "env \<Rightarrow> world \<Rightarrow> image \<Rightarrow> path \<Rightarrow> save_options \<Rightarrow> exn + world" where
  "image_save e w img p so =
     (case image_encode e img p so of
        Inl ex \<Rightarrow> Inl ex
      | Inr bs \<Rightarrow> Inr (w\<lparr>files := (files w)(p \<mapsto> bs)\<rparr>))"

text \<open>Lines 168 to 178.\<close>

definition convert_image :: "env \<Rightarrow> world \<Rightarrow> path \<Rightarrow> string \<Rightarrow> (exn + path) \<times> world" where
  "convert_image e w source_path target_format =
     (let (h, w1) = uuid4_hex e w;
          temp_converted_path = join (tempdir e) (''converted_'' @ h @ ''.'' @ target_format)
      in case image_open e w1 source_path of
           Inl ex \<Rightarrow> (Inl ex, w1)
         | Inr img \<Rightarrow>
             (let prepared =
                    (if target_format = ''jpeg'' \<or> target_format = ''jpg'' then
                       (case (if mode img = ''RGBA'' then image_convert e img ''RGB'' else Inr img) of
                          Inl ex \<Rightarrow> Inl ex
                        | Inr img' \<Rightarrow> Inr (img', no_save_options\<lparr>so_quality := Some 98\<rparr>))
                     else if target_format = ''png'' then
                       (case (if mode img \<noteq> ''RGBA'' then image_convert e img ''RGBA'' else Inr img) of
                          Inl ex \<Rightarrow> Inl ex
                        | Inr img' \<Rightarrow> Inr (img', no_save_options))
                     else Inr (img, no_save_options))
              in case prepared of
                   Inl ex \<Rightarrow> (Inl ex, w1)
                 | Inr (img', so) \<Rightarrow>
                     (case image_save e w1 img' temp_converted_path so of
                        Inl ex \<Rightarrow> (Inl ex, w1)
                      | Inr w2 \<Rightarrow> (Inr temp_converted_path, w2))))"

subsection \<open>process\_file, lines 180 to 235\<close>

text \<open>Lines 181 to 187: the target format and whether the format changes.\<close>

definition own_format :: "path \<Rightarrow> string" where
  "own_format file_path = remove_dots (lower (snd (splitext (basename file_path))))"

definition derive_target :: "env \<Rightarrow> world \<Rightarrow> path \<Rightarrow> options \<Rightarrow> (string \<times> bool) \<times> world" where
  "derive_target e w file_path opts =
     (let original_basename = basename file_path;
          file_ext_orig = snd (splitext original_basename);
          target_format_str = get_default (opt_format opts) keep_original_format;
          is_converting_format = (target_format_str \<noteq> keep_original_format);
          target_format = (if is_converting_format then lower target_format_str
                           else remove_dots (lower file_ext_orig))
      in if truthy (opt_auto_convert_png opts) \<and> lower file_ext_orig = ''.png''
            \<and> \<not> is_converting_format
         then (let (opaque, w1) = is_png_fully_opaque e w file_path
               in if opaque then ((''jpeg'', True), w1)
                  else ((target_format, is_converting_format), w1))
         else ((target_format, is_converting_format), w))"

text \<open>Lines 190 to 192.\<close>

definition final_output_path :: "path \<Rightarrow> options \<Rightarrow> string \<Rightarrow> path" where
  "final_output_path file_path opts target_format =
     (if truthy (opt_overwrite opts) then file_path
      else join
             (if opt_output_dir opts \<noteq> Some original_folder
              then get_default (opt_output_dir opts) (dirname file_path)
              else dirname file_path)
             (fst (splitext (basename file_path)) @ get_default (opt_suffix opts) ''-tiny''
              @ ''.'' @ target_format))"

text \<open>
  Lines 196 to 208: safe copy, resize and format bridge. The result is the current path
  or the exception raised, with the list of temporary files as it stands at that point.
\<close>

definition stage_resize ::
  "env \<Rightarrow> world \<Rightarrow> options \<Rightarrow> path \<Rightarrow> path list \<Rightarrow> (exn + path) \<times> path list \<times> world" where
  "stage_resize e w opts current_path temp_files =
     (if truthy (opt_resize_enabled opts) \<and> get_default (opt_width opts) 0 > 0
         \<and> get_default (opt_height opts) 0 > 0
      then (let file_ext = snd (splitext current_path);
                (h, w1) = uuid4_hex e w;
                temp_resized = join (tempdir e) (''resized_'' @ h @ file_ext)
            in case image_open e w1 current_path of
                 Inl ex \<Rightarrow> (Inl ex, temp_files, w1)
               | Inr img \<Rightarrow>
                   (case image_resize e img (get_default (opt_width opts) 0)
                           (get_default (opt_height opts) 0) of
                      Inl ex \<Rightarrow> (Inl ex, temp_files, w1)
                    | Inr img' \<Rightarrow>
                        (case image_save e w1 img' temp_resized no_save_options of
                           Inl ex \<Rightarrow> (Inl ex, temp_files, w1)
                         | Inr w2 \<Rightarrow> (Inr temp_resized, temp_files @ [temp_resized], w2))))
      else (Inr current_path, temp_files, w))"

definition stage_convert ::
  "env \<Rightarrow> world \<Rightarrow> string \<Rightarrow> path \<Rightarrow> path list \<Rightarrow> (exn + path) \<times> path list \<times> world" where
  "stage_convert e w target_format current_path temp_files =
     (let current_ext_no_dot = strip_char (CHR ''.'') (lower (snd (splitext current_path)))
      in if current_ext_no_dot \<noteq> target_format
         then (case convert_image e w current_path target_format of
                 (Inl ex, w1) \<Rightarrow> (Inl ex, temp_files, w1)
               | (Inr temp_converted, w1) \<Rightarrow>
                   (Inr temp_converted, temp_files @ [temp_converted], w1))
         else (Inr current_path, temp_files, w))"

definition staging ::
  "env \<Rightarrow> world \<Rightarrow> options \<Rightarrow> string \<Rightarrow> path \<Rightarrow> path list \<Rightarrow> (exn + path) \<times> path list \<times> world" where
  "staging e w opts target_format file_path temp_files =
     (case safe_copy_for_processing e w file_path of
        (Inl ex, w1) \<Rightarrow> (Inl ex, temp_files, w1)
      | (Inr (current_path, safe_copy), w1) \<Rightarrow>
          (let temp_files1 = (case safe_copy of None \<Rightarrow> temp_files
                              | Some p \<Rightarrow> temp_files @ [p])
           in case stage_resize e w1 opts current_path temp_files1 of
                (Inl ex, temp_files2, w2) \<Rightarrow> (Inl ex, temp_files2, w2)
              | (Inr current_path2, temp_files2, w2) \<Rightarrow>
                  stage_convert e w2 target_format current_path2 temp_files2))"

text \<open>
  Lines 210 to 227: the encoder for the target format. The result \<open>None\<close> is the early
  return for an unsupported format; otherwise it is \<^verbatim>\<open>(is_success, message)\<close>.
\<close>

definition choose_quality ::
  "env \<Rightarrow> world \<Rightarrow> options \<Rightarrow> path \<Rightarrow> compress_func \<Rightarrow> (exn + int) \<times> world" where
  "choose_quality e w opts current_path compress_func =
     (if opt_mode opts = Some ''size'' then
        (case opt_target_size opts of
           None \<Rightarrow> (Inl (KeyError ''target_size''), w)
         | Some target_size \<Rightarrow>
             (let (q, w1, ps) = find_best_quality e w current_path target_size compress_func
              in (Inr q, w1)))
      else (Inr (get_default (opt_quality opts) 75), w))"

definition encode ::
  "env \<Rightarrow> world \<Rightarrow> options \<Rightarrow> string \<Rightarrow> string \<Rightarrow> path \<Rightarrow> path
     \<Rightarrow> (exn + (bool \<times> string) option) \<times> world" where
  "encode e w opts target_format original_basename current_path temp_output_path =
     (let quality = get_default (opt_quality opts) 75
      in if target_format = ''jpeg'' \<or> target_format = ''jpg'' then
           (case choose_quality e w opts current_path (compress_jpeg e) of
              (Inl ex, w1) \<Rightarrow> (Inl ex, w1)
            | (Inr quality, w1) \<Rightarrow>
                (let (r, w2) = compress_jpeg e w1 current_path temp_output_path quality
                 in if fst r
                    then (Inr (Some (True, quoted original_basename @ '' -> JPEG, quality ''
                                           @ str_int quality @ ''.'')), w2)
                    else (Inr (Some r), w2)))
         else if target_format = ''png'' then
           (let quality_range = (if quality > 10
                                 then str_int (quality - 10) @ ''-'' @ str_int quality
                                 else ''0-'' @ str_int quality);
                use_zopfli = get_default (opt_max_png opts) False
            in case compress_png e w current_path temp_output_path quality_range use_zopfli of
                 (Inl ex, w1) \<Rightarrow> (Inl ex, w1)
               | (Inr r, w1) \<Rightarrow>
                   if fst r \<and> snd r = already_optimized
                   then (Inr (Some (True, quoted original_basename @ '' is already optimized.'')), w1)
                   else if fst r
                   then (Inr (Some (True, quoted original_basename @ '' compressed to PNG.'')), w1)
                   else (Inr (Some r), w1))
         else if target_format = ''webp'' then
           (case choose_quality e w opts current_path (compress_webp e) of
              (Inl ex, w1) \<Rightarrow> (Inl ex, w1)
            | (Inr quality, w1) \<Rightarrow>
                (let (r, w2) = compress_webp e w1 current_path temp_output_path quality
                 in if fst r
                    then (Inr (Some (True, quoted original_basename @ '' -> WEBP, quality ''
                                           @ str_int quality @ ''.'')), w2)
                    else (Inr (Some r), w2)))
         else if target_format = ''ico'' then
           (case image_open e w current_path of
              Inl ex \<Rightarrow> (Inl ex, w)
            | Inr img \<Rightarrow>
                (case image_save e w img temp_output_path
                        \<lparr>so_quality = None, so_format = Some ''ICO'',
                         so_sizes = [(32, 32), (48, 48), (64, 64)]\<rparr> of
                   Inl ex \<Rightarrow> (Inl ex, w)
                 | Inr w1 \<Rightarrow> (Inr (Some (True, quoted original_basename @ '' -> ICO.'')), w1)))
         else (Inr None, w))"

text \<open>Lines 228 to 231: move the result into place and drop it from the list.\<close>

definition finalize ::
  "world \<Rightarrow> string \<Rightarrow> path \<Rightarrow> path \<Rightarrow> path list \<Rightarrow> bool \<times> string
     \<Rightarrow> (exn + bool \<times> string) \<times> path list \<times> world" where
  "finalize w original_basename temp_output_path final_path temp_files r =
     (if fst r then
        (case (if snd r \<noteq> quoted original_basename @ '' is already optimized.''
               then move w temp_output_path final_path else Inr w) of
           Inl ex \<Rightarrow> (Inl ex, temp_files, w)
         | Inr w1 \<Rightarrow>
             if temp_output_path \<in> set temp_files
             then (Inr (True, snd r), remove1 temp_output_path temp_files, w1)
             else (Inl (OtherError ''list.remove(x): x not in list''), temp_files, w1))
      else (Inr (False, snd r), temp_files, w))"

text \<open>The body of the \<^verbatim>\<open>try\<close> block, lines 196 to 231.\<close>

definition process_try ::
  "env \<Rightarrow> world \<Rightarrow> options \<Rightarrow> path \<Rightarrow> string \<Rightarrow> path \<Rightarrow> path
     \<Rightarrow> (exn + bool \<times> string) \<times> path list \<times> world" where
  "process_try e w opts file_path target_format final_path temp_output_path =
     (case staging e w opts target_format file_path [temp_output_path] of
        (Inl ex, temp_files, w1) \<Rightarrow> (Inl ex, temp_files, w1)
      | (Inr current_path, temp_files, w1) \<Rightarrow>
          (case encode e w1 opts target_format (basename file_path) current_path
                  temp_output_path of
             (Inl ex, w2) \<Rightarrow> (Inl ex, temp_files, w2)
           | (Inr None, w2) \<Rightarrow> (Inr (False, unsupported_type), temp_files, w2)
           | (Inr (Some r), w2) \<Rightarrow>
               finalize w2 (basename file_path) temp_output_path final_path temp_files r))"

text \<open>The \<^verbatim>\<open>finally\<close> block, lines 233 to 235.\<close>

fun cleanup :: "world \<Rightarrow> path list \<Rightarrow> exn option \<times> world" where
  "cleanup w [] = (None, w)"
| "cleanup w (f # fs) =
     (if path_exists w f
      then (case os_remove w f of
              Inl ex \<Rightarrow> (Some ex, w)
            | Inr w1 \<Rightarrow> cleanup w1 fs)
      else cleanup w fs)"

text \<open>
  Lines 195 to 235, the \<^verbatim>\<open>try\<close> statement as a whole. An exception of the body is
  turned into a failure by the handler of line 232; an exception of the \<^verbatim>\<open>finally\<close>
  block would replace the result.
\<close>

definition process_guarded ::
  "env \<Rightarrow> world \<Rightarrow> options \<Rightarrow> path \<Rightarrow> string \<Rightarrow> path \<Rightarrow> path
     \<Rightarrow> (exn + bool \<times> string) \<times> world" where
  "process_guarded e w opts file_path target_format final_path temp_output_path =
     (let (r, temp_files, w3) =
             process_try e w opts file_path target_format final_path temp_output_path;
          (r', w4) =
             (case r of
                Inl ex \<Rightarrow>
                  (Inr (False, ''An unexpected error occurred: '' @ str_exn ex),
                   log_error w3 (''A fatal error occurred during processing: '' @ str_exn ex))
              | Inr v \<Rightarrow> (Inr v, w3));
          (raised, w5) = cleanup w4 temp_files
      in case raised of
           Some ex \<Rightarrow> (Inl ex, w5)
         | None \<Rightarrow> (r', w5))"

text \<open>
  The whole call, lines 180 to 235. The temporary output file of line 193 is created
  before the \<^verbatim>\<open>try\<close> statement, so an exception of that call reaches the caller.
\<close>

definition process_file ::
  "env \<Rightarrow> world \<Rightarrow> path \<Rightarrow> options \<Rightarrow> (exn + bool \<times> string) \<times> world" where
  "process_file e w file_path opts =
     (let should_overwrite = truthy (opt_overwrite opts);
          ((target_format, is_converting_format), w1) = derive_target e w file_path opts
      in if should_overwrite \<and> is_converting_format
         then (Inr (False, overwrite_format_error), log_error w1 overwrite_format_error)
         else
           (let final_path = final_output_path file_path opts target_format
            in case named_temporary_file_or_raise e w1 (''.'' @ target_format) of
                 Inl ex \<Rightarrow> (Inl ex, w1)
               | Inr (temp_output_path, w2) \<Rightarrow>
                   process_guarded e w2 opts file_path target_format final_path
                     temp_output_path))"

text \<open>Names used to state properties: where a tool is looked for, the quantizer run of
  line 141, whether opening or inspecting an image raises, and whether the options ask
  for no format conversion.\<close>

definition tool_path :: "env \<Rightarrow> string \<Rightarrow> path" where
  "tool_path e tool_name = get_resource_path e (join ''tools'' tool_name)"

definition quantizer_stage ::
  "env \<Rightarrow> world \<Rightarrow> path \<Rightarrow> path \<Rightarrow> string \<Rightarrow> bool \<Rightarrow> (bool \<times> string) \<times> world" where
  "quantizer_stage e w in_path out_path quality_range use_zopfli =
     run_tool e w (tool_path e ''pngquant.exe'')
       (pngquant_args quality_range (png_temp_path e out_path use_zopfli) in_path)"

definition open_or_inspect_raises :: "env \<Rightarrow> world \<Rightarrow> path \<Rightarrow> bool" where
  "open_or_inspect_raises e w file_path =
     (case image_open e w file_path of
        Inl ex \<Rightarrow> True
      | Inr img \<Rightarrow> isl (inspect_opaque img))"

definition keeps_original_format :: "options \<Rightarrow> bool" where
  "keeps_original_format opts =
     (get_default (opt_format opts) keep_original_format = keep_original_format)"

section \<open>Concrete inputs\<close>

text \<open>
  A small installation used to run the definitions: every tool is present, the quantizer
  always exits with code 99 and writes nothing, every other tool writes one byte to its
  output path and exits with 0. A file that starts with byte 1 decodes to an RGBA
  picture with a transparent pixel, another non-empty file to an opaque RGBA picture,
  and the empty file does not decode.
\<close>

definition demo_run :: "string list \<Rightarrow> (path \<rightharpoonup> bytes) \<Rightarrow> proc \<times> (path \<rightharpoonup> bytes)" where
  "demo_run command fs =
     (if basename (hd command) = ''pngquant.exe'' then (Completed 99 [] [], fs)
      else if basename (hd command) = ''zopflipng.exe''
      then (Completed 0 [] [], fs(last command \<mapsto> [7]))
      else (Completed 0 [] [], fs(command ! 5 \<mapsto> [7])))"

definition demo_image :: image where
  "demo_image = \<lparr>mode = ''RGBA'', info_transparency = False,
     getbands = [''R'', ''G'', ''B'', ''A''], getchannel_A_getdata = Inr [255, 0],
     pixels = [1, 2]\<rparr>"

definition opaque_image :: image where
  "opaque_image = \<lparr>mode = ''RGBA'', info_transparency = False,
     getbands = [''R'', ''G'', ''B'', ''A''], getchannel_A_getdata = Inr [255, 255],
     pixels = [3, 4]\<rparr>"

definition demo_decode :: "bytes \<Rightarrow> exn + image" where
  "demo_decode bs =
     (case bs of
        [] \<Rightarrow> Inl (ImageError ''cannot identify image file'')
      | b # _ \<Rightarrow> if b = 1 then Inr demo_image else Inr opaque_image)"

definition demo_env :: env where
  "demo_env = \<lparr>base_path = ''/app'', tool_exists = (\<lambda>p. True), tempdir = ''/tmp'',
     rand_hex = str_nat, subprocess_run = demo_run,
     image_decode = demo_decode,
     image_convert = (\<lambda>img m. Inr (img\<lparr>mode := m\<rparr>)),
     image_resize = (\<lambda>img x y. Inr img),
     image_encode = (\<lambda>img p so. Inr (pixels img))\<rparr>"

definition demo_world :: world where
  "demo_world = \<lparr>files = [''/pics/a.png'' \<mapsto> [1, 2, 3], ''/pics/b.png'' \<mapsto> [2, 2, 2],
                           ''/pics/c.png'' \<mapsto> []],
                 seed = 0, log = [], calls = []\<rparr>"

text \<open>The options of the headless run (lines 454 and 455), and the same with overwrite.\<close>

definition headless_options :: options where
  "headless_options =
     \<lparr>opt_overwrite = Some False, opt_format = Some keep_original_format,
      opt_auto_convert_png = Some True, opt_output_dir = Some original_folder,
      opt_suffix = Some ''-tiny'', opt_resize_enabled = Some False,
      opt_width = None, opt_height = None, opt_quality = Some 75,
      opt_mode = Some ''quality'', opt_target_size = None, opt_max_png = Some False\<rparr>"

definition overwrite_options :: options where
  "overwrite_options = headless_options\<lparr>opt_overwrite := Some True\<rparr>"



definition encode_one_byte :: compress_func where
  "encode_one_byte w in_path out_path q =
     ((True, ''Success''), w\<lparr>files := (files w)(out_path \<mapsto> [0])\<rparr>)"

definition encode_nothing :: compress_func where
  "encode_nothing w in_path out_path q =
     ((True, ''Success''), w\<lparr>files := (files w)(out_path := None)\<rparr>)"

definition start_search :: search where
  "start_search = \<lparr>low = 1, high = 100, best_quality = -1\<rparr>"

section \<open>Properties of the quality search\<close>

lemma probe_step_search:
  "fst (fst (probe_step e cf ip tb sw)) =
     (let s = fst sw; q = (low s + high s) div 2
      in if within_budget tb (snd (probe_step e cf ip tb sw))
         then s\<lparr>low := q + 1, best_quality := q\<rparr> else s\<lparr>high := q - 1\<rparr>)"
  by (auto simp: probe_step_def Let_def path_exists_def within_budget_def
           split: prod.splits option.splits)

lemma probe_step_q:
  "probe_q (snd (probe_step e cf ip tb sw)) = (low (fst sw) + high (fst sw)) div 2"
  by (simp add: probe_step_def Let_def split: prod.splits)

lemma probe_step_inv:
  assumes "search_inv (fst sw)" and "low (fst sw) \<le> high (fst sw)"
  shows "search_inv (fst (fst (probe_step e cf ip tb sw)))"
proof -
  let ?q = "(low (fst sw) + high (fst sw)) div 2"
  from assms have "1 \<le> ?q" "?q \<le> 100" by (auto simp: search_inv_def)
  with assms(1) show ?thesis
    by (auto simp: probe_step_search Let_def search_inv_def)
qed

lemma fbq_loop_inv:
  "search_inv (fst sw) \<Longrightarrow> search_inv (fst (fst (fbq_loop n e cf ip tb sw)))"
proof (induction n arbitrary: sw)
  case 0
  then show ?case by simp
next
  case (Suc n)
  show ?case
  proof (cases "low (fst sw) > high (fst sw)")
    case True
    with Suc.prems show ?thesis by simp
  next
    case False
    then have "search_inv (fst (fst (probe_step e cf ip tb sw)))"
      using Suc.prems by (simp add: probe_step_inv)
    then have "search_inv (fst (fst (fbq_loop n e cf ip tb (fst (probe_step e cf ip tb sw)))))"
      by (rule Suc.IH)
    with False show ?thesis
      by (simp add: split_beta Let_def)
  qed
qed

lemma fbq_loop_length: "length (snd (fbq_loop n e cf ip tb sw)) \<le> n"
  by (induction n arbitrary: sw) (auto simp: split_beta Let_def)

lemma fbq_loop_no_fit:
  "\<forall>p \<in> set (snd (fbq_loop n e cf ip tb sw)). \<not> within_budget tb p
   \<Longrightarrow> best_quality (fst (fst (fbq_loop n e cf ip tb sw))) = best_quality (fst sw)"
proof (induction n arbitrary: sw)
  case 0
  then show ?case by simp
next
  case (Suc n)
  show ?case
  proof (cases "low (fst sw) > high (fst sw)")
    case True
    then show ?thesis by simp
  next
    case False
    let ?st = "probe_step e cf ip tb sw"
    from False Suc.prems
    have p: "\<not> within_budget tb (snd ?st)"
      and rest: "\<forall>p \<in> set (snd (fbq_loop n e cf ip tb (fst ?st))). \<not> within_budget tb p"
      by (simp_all add: split_beta Let_def)
    from p have "best_quality (fst (fst ?st)) = best_quality (fst sw)"
      by (simp add: probe_step_search Let_def)
    moreover from rest
    have "best_quality (fst (fst (fbq_loop n e cf ip tb (fst ?st)))) = best_quality (fst (fst ?st))"
      by (rule Suc.IH)
    ultimately show ?thesis using False
      by (simp add: split_beta Let_def)
  qed
qed

lemma fbq_loop_best_mono:
  "q < low (fst sw) \<Longrightarrow> q \<le> best_quality (fst sw)
   \<Longrightarrow> q \<le> best_quality (fst (fst (fbq_loop n e cf ip tb sw)))"
proof (induction n arbitrary: sw)
  case 0
  then show ?case by simp
next
  case (Suc n)
  show ?case
  proof (cases "low (fst sw) > high (fst sw)")
    case True
    with Suc.prems show ?thesis by simp
  next
    case False
    let ?st = "probe_step e cf ip tb sw"
    let ?q' = "(low (fst sw) + high (fst sw)) div 2"
    from False Suc.prems(1) have "q < ?q'" by linarith
    with Suc.prems have "q < low (fst (fst ?st))" "q \<le> best_quality (fst (fst ?st))"
      by (auto simp: probe_step_search Let_def)
    then have "q \<le> best_quality (fst (fst (fbq_loop n e cf ip tb (fst ?st))))"
      by (rule Suc.IH)
    with False show ?thesis by (simp add: split_beta Let_def)
  qed
qed

lemma demo_probe_one_byte:
  "snd (probe_step demo_env encode_one_byte ''/pics/a.jpg'' tb (start_search, demo_world))
     = \<lparr>probe_q = 50, probe_success = True, probe_size = Some 1\<rparr>"
  by (simp add: probe_step_def Let_def named_temporary_file_def encode_one_byte_def
        start_search_def)

lemma demo_probe_nothing:
  "snd (probe_step demo_env encode_nothing ''/pics/a.jpg'' tb (start_search, demo_world))
     = \<lparr>probe_q = 50, probe_success = True, probe_size = None\<rparr>"
  by (simp add: probe_step_def Let_def named_temporary_file_def encode_nothing_def
        start_search_def)

text \<open>
  C3. Whatever the input, the target size and the encode function, the search calls the
  encode function at most 8 times (one entry of the probe list per call), returns a
  quality between 1 and 100, and returns 1 when no probe was within the budget of
  \<open>target_kb * 1024\<close> bytes.
\<close>

theorem find_best_quality_bounded:
  "length (snd (snd (find_best_quality e w in_path target_kb cf))) \<le> 8
   \<and> 1 \<le> fst (find_best_quality e w in_path target_kb cf)
   \<and> fst (find_best_quality e w in_path target_kb cf) \<le> 100
   \<and> ((\<forall>p \<in> set (snd (snd (find_best_quality e w in_path target_kb cf))).
          \<not> within_budget (target_kb * 1024) p)
        \<longrightarrow> fst (find_best_quality e w in_path target_kb cf) = 1)"
proof -
  let ?init = "(\<lparr>low = 1, high = 100, best_quality = -1\<rparr>, w)"
  let ?run = "fbq_loop 8 e cf in_path (target_kb * 1024) ?init"
  have len: "length (snd ?run) \<le> 8" by (rule fbq_loop_length)
  have "search_inv (fst ?init)" by (simp add: search_inv_def)
  then have inv: "search_inv (fst (fst ?run))" by (rule fbq_loop_inv)
  have nofit: "(\<forall>p \<in> set (snd ?run). \<not> within_budget (target_kb * 1024) p)
     \<Longrightarrow> best_quality (fst (fst ?run)) = -1"
    using fbq_loop_no_fit [of 8 e cf in_path "target_kb * 1024" ?init] by simp
  from len inv nofit show ?thesis
    by (auto simp: find_best_quality_def Let_def split_beta search_inv_def)
qed

theorem find_best_quality_bounded_witness:
  "list_all (\<lambda>p. \<not> within_budget (0 * 1024) p)
     (snd (snd (find_best_quality demo_env demo_world ''/pics/a.jpg'' 0 encode_one_byte)))
   \<and> fst (find_best_quality demo_env demo_world ''/pics/a.jpg'' 0 encode_one_byte) = 1"
proof -
  have h: "list_all (\<lambda>p. \<not> within_budget (0 * 1024) p)
     (snd (snd (find_best_quality demo_env demo_world ''/pics/a.jpg'' 0 encode_one_byte)))"
    by code_simp
  then have "\<forall>p \<in> set (snd (snd (find_best_quality demo_env demo_world ''/pics/a.jpg'' 0
                                     encode_one_byte))).
               \<not> within_budget (0 * 1024) p"
    by (simp add: list_all_iff)
  then have "fst (find_best_quality demo_env demo_world ''/pics/a.jpg'' 0 encode_one_byte) = 1"
    using find_best_quality_bounded [of demo_env demo_world "''/pics/a.jpg''" 0 encode_one_byte]
    by blast
  with h show ?thesis by blast
qed

text \<open>
  C4. When a probe at quality \<open>q\<close> is within budget, the step records \<open>q\<close> as the best
  quality and raises the floor to \<open>q + 1\<close>; however many rounds of the loop follow, the
  best quality stays at least \<open>q\<close>.
\<close>

theorem probe_within_budget_records_best:
  assumes "within_budget target_bytes (snd (probe_step e cf in_path target_bytes (s, w)))"
  shows "probe_q (snd (probe_step e cf in_path target_bytes (s, w))) = (low s + high s) div 2
    \<and> best_quality (fst (fst (probe_step e cf in_path target_bytes (s, w)))) = (low s + high s) div 2
    \<and> low (fst (fst (probe_step e cf in_path target_bytes (s, w)))) = (low s + high s) div 2 + 1
    \<and> (\<forall>n. (low s + high s) div 2
            \<le> best_quality (fst (fst (fbq_loop n e cf in_path target_bytes
                                        (fst (probe_step e cf in_path target_bytes (s, w)))))))"
proof -
  let ?q = "(low s + high s) div 2"
  let ?st = "probe_step e cf in_path target_bytes (s, w)"
  from assms have s': "fst (fst ?st) = s\<lparr>low := ?q + 1, best_quality := ?q\<rparr>"
    by (simp add: probe_step_search Let_def)
  then have "?q < low (fst (fst ?st))" "?q \<le> best_quality (fst (fst ?st))"
    by simp_all
  then have "\<forall>n. ?q \<le> best_quality (fst (fst (fbq_loop n e cf in_path target_bytes (fst ?st))))"
    using fbq_loop_best_mono by blast
  with s' show ?thesis by (simp add: probe_step_q)
qed

theorem probe_within_budget_records_best_witness:
  "within_budget 1024
     (snd (probe_step demo_env encode_one_byte ''/pics/a.jpg'' 1024 (start_search, demo_world)))
   \<and> best_quality (fst (fst (probe_step demo_env encode_one_byte ''/pics/a.jpg'' 1024
                               (start_search, demo_world)))) = 50
   \<and> low (fst (fst (probe_step demo_env encode_one_byte ''/pics/a.jpg'' 1024
                      (start_search, demo_world)))) = 51"
proof -
  have h: "within_budget 1024
     (snd (probe_step demo_env encode_one_byte ''/pics/a.jpg'' 1024 (start_search, demo_world)))"
    by (simp add: demo_probe_one_byte within_budget_def)
  show ?thesis
    using h probe_within_budget_records_best [OF h]
    by (simp add: start_search_def)
qed

text \<open>
  C10. A probe whose encode function reports success but leaves no file at the
  temporary output path lowers the ceiling to \<open>q - 1\<close> and changes neither the floor nor
  the best quality, as an oversized or failed probe does.
\<close>

theorem probe_without_output_lowers_ceiling:
  assumes "probe_success (snd (probe_step e cf in_path target_bytes (s, w)))"
    and "probe_size (snd (probe_step e cf in_path target_bytes (s, w))) = None"
  shows "fst (fst (probe_step e cf in_path target_bytes (s, w)))
           = s\<lparr>high := (low s + high s) div 2 - 1\<rparr>"
  using assms by (simp add: probe_step_search Let_def within_budget_def)

theorem probe_without_output_lowers_ceiling_witness:
  "probe_success (snd (probe_step demo_env encode_nothing ''/pics/a.jpg'' 1024
                         (start_search, demo_world)))
   \<and> probe_size (snd (probe_step demo_env encode_nothing ''/pics/a.jpg'' 1024
                        (start_search, demo_world))) = None
   \<and> fst (fst (probe_step demo_env encode_nothing ''/pics/a.jpg'' 1024 (start_search, demo_world)))
       = \<lparr>low = 1, high = 49, best_quality = -1\<rparr>"
proof -
  have h1: "probe_success (snd (probe_step demo_env encode_nothing ''/pics/a.jpg'' 1024
                         (start_search, demo_world)))"
    and h2: "probe_size (snd (probe_step demo_env encode_nothing ''/pics/a.jpg'' 1024
                        (start_search, demo_world))) = None"
    by (simp_all add: demo_probe_nothing)
  show ?thesis
    using h1 h2 probe_without_output_lowers_ceiling [OF h1 h2]
    by (simp add: start_search_def)
qed

section \<open>Properties of the opacity test and the target format\<close>

lemma is_png_fully_opaque_raises:
  "open_or_inspect_raises e w file_path \<Longrightarrow> fst (is_png_fully_opaque e w file_path) = False"
  by (auto simp: open_or_inspect_raises_def is_png_fully_opaque_def split: sum.splits)

lemma derive_target_not_opaque:
  "keeps_original_format opts \<Longrightarrow> \<not> fst (is_png_fully_opaque e w file_path)
   \<Longrightarrow> fst (derive_target e w file_path opts) = (own_format file_path, False)"
  by (auto simp: derive_target_def keeps_original_format_def own_format_def Let_def split_beta)

text \<open>
  C9. If opening the image or inspecting it raises, \<open>is_png_fully_opaque\<close> returns
  False; with no explicit format requested the target format is then the file's own and
  the format is not converted, so such a PNG is never turned into a JPEG automatically.
\<close>

theorem unreadable_png_not_converted:
  assumes "open_or_inspect_raises e w file_path"
  shows "fst (is_png_fully_opaque e w file_path) = False
         \<and> (keeps_original_format opts
              \<longrightarrow> fst (derive_target e w file_path opts) = (own_format file_path, False))"
  using assms by (simp add: is_png_fully_opaque_raises derive_target_not_opaque)

theorem unreadable_png_not_converted_witness:
  "open_or_inspect_raises demo_env demo_world ''/pics/c.png''
   \<and> fst (is_png_fully_opaque demo_env demo_world ''/pics/c.png'') = False
   \<and> keeps_original_format headless_options
   \<and> fst (derive_target demo_env demo_world ''/pics/c.png'' headless_options) = (''png'', False)"
proof -
  have h: "open_or_inspect_raises demo_env demo_world ''/pics/c.png''"
    by code_simp
  have k: "keeps_original_format headless_options"
    by code_simp
  have o: "own_format ''/pics/c.png'' = ''png''"
    by code_simp
  show ?thesis
    using h k o unreadable_png_not_converted [OF h, of headless_options]
    by simp
qed

lemma inspect_opaque_true:
  assumes "mode img = ''P'' \<longrightarrow> \<not> info_transparency img"
    and "''A'' \<in> set (getbands img) \<longrightarrow>
           (\<exists>samples. getchannel_A_getdata img = Inr samples \<and> (\<forall>s \<in> set samples. s = 255))"
  shows "inspect_opaque img = Inr True"
  using assms by (auto simp: inspect_opaque_def list_ex_iff)

lemma inspect_opaque_false:
  assumes "''A'' \<in> set (getbands img)" and "getchannel_A_getdata img = Inr samples"
    and "\<exists>s \<in> set samples. s < 255"
  shows "inspect_opaque img = Inr False"
  using assms by (auto simp: inspect_opaque_def list_ex_iff)

lemma join_suffix: "\<exists>stem. join a (b @ c) = stem @ c"
  by (cases b) (auto simp: join_def)

lemma final_output_path_ext:
  "\<not> truthy (opt_overwrite opts) \<Longrightarrow> \<exists>stem. final_output_path file_path opts fmt = stem @ ''.'' @ fmt"
  unfolding final_output_path_def
  using join_suffix [of _ "fst (splitext (basename file_path)) @ get_default (opt_suffix opts) ''-tiny''" "''.'' @ fmt"]
  by simp


lemma is_png_fully_opaque_inspect:
  "image_open e w file_path = Inr img \<Longrightarrow> inspect_opaque img = Inr b
   \<Longrightarrow> is_png_fully_opaque e w file_path = (b, w)"
  by (simp add: is_png_fully_opaque_def)

lemma derive_target_opaque:
  "truthy (opt_auto_convert_png opts) \<Longrightarrow> lower (snd (splitext (basename file_path))) = ''.png''
   \<Longrightarrow> keeps_original_format opts \<Longrightarrow> is_png_fully_opaque e w file_path = (True, w)
   \<Longrightarrow> derive_target e w file_path opts = ((''jpeg'', True), w)"
  by (simp add: derive_target_def keeps_original_format_def Let_def)

lemma own_format_png:
  "lower (snd (splitext (basename file_path))) = ''.png'' \<Longrightarrow> own_format file_path = ''png''"
  by (simp add: own_format_def remove_dots_def)

text \<open>
  C7. A PNG input (extension \<^verbatim>\<open>.png\<close> in any case) is processed with auto-convert
  enabled and no explicit target format, and the image opens. If the palette carries no
  transparency entry and every alpha sample is 255 then the derived target format is
  \<^verbatim>\<open>jpeg\<close>, the format counts as converted, and the output path computed when the
  file is not overwritten ends in \<^verbatim>\<open>.jpeg\<close>. If some alpha sample is below 255 the
  target format stays \<^verbatim>\<open>png\<close>.
\<close>

theorem opaque_png_becomes_jpeg:
  assumes auto: "truthy (opt_auto_convert_png opts)"
    and ext: "lower (snd (splitext (basename file_path))) = ''.png''"
    and keep: "keeps_original_format opts"
    and img: "image_open e w file_path = Inr img"
  shows "((mode img = ''P'' \<longrightarrow> \<not> info_transparency img)
          \<and> (''A'' \<in> set (getbands img) \<longrightarrow>
               (\<exists>samples. getchannel_A_getdata img = Inr samples
                          \<and> (\<forall>s \<in> set samples. s = 255)))
          \<longrightarrow> fst (derive_target e w file_path opts) = (''jpeg'', True)
              \<and> (\<not> truthy (opt_overwrite opts) \<longrightarrow>
                    (\<exists>stem. final_output_path file_path opts
                               (fst (fst (derive_target e w file_path opts)))
                             = stem @ ''.jpeg'')))
       \<and> ((\<exists>samples. ''A'' \<in> set (getbands img) \<and> getchannel_A_getdata img = Inr samples
                      \<and> (\<exists>s \<in> set samples. s < 255))
          \<longrightarrow> fst (derive_target e w file_path opts) = (''png'', False))"
proof (intro conjI impI)
  assume op: "(mode img = ''P'' \<longrightarrow> \<not> info_transparency img)
          \<and> (''A'' \<in> set (getbands img) \<longrightarrow>
               (\<exists>samples. getchannel_A_getdata img = Inr samples
                          \<and> (\<forall>s \<in> set samples. s = 255)))"
  then have "inspect_opaque img = Inr True"
    by (simp add: inspect_opaque_true)
  with img have "is_png_fully_opaque e w file_path = (True, w)"
    by (rule is_png_fully_opaque_inspect)
  with auto ext keep have d: "derive_target e w file_path opts = ((''jpeg'', True), w)"
    by (rule derive_target_opaque)
  then show "fst (derive_target e w file_path opts) = (''jpeg'', True)" by simp
  assume "\<not> truthy (opt_overwrite opts)"
  then show "\<exists>stem. final_output_path file_path opts
                               (fst (fst (derive_target e w file_path opts)))
                             = stem @ ''.jpeg''"
    using final_output_path_ext [of opts file_path "''jpeg''"] d by simp
next
  assume "\<exists>samples. ''A'' \<in> set (getbands img) \<and> getchannel_A_getdata img = Inr samples
                      \<and> (\<exists>s \<in> set samples. s < 255)"
  then have "inspect_opaque img = Inr False"
    using inspect_opaque_false by blast
  with img have "is_png_fully_opaque e w file_path = (False, w)"
    by (rule is_png_fully_opaque_inspect)
  then have "\<not> fst (is_png_fully_opaque e w file_path)" by simp
  with keep have "fst (derive_target e w file_path opts) = (own_format file_path, False)"
    by (rule derive_target_not_opaque)
  with ext show "fst (derive_target e w file_path opts) = (''png'', False)"
    by (simp add: own_format_png)
qed

theorem opaque_png_becomes_jpeg_witness:
  "image_open demo_env demo_world ''/pics/b.png'' = Inr opaque_image
   \<and> fst (derive_target demo_env demo_world ''/pics/b.png'' headless_options) = (''jpeg'', True)
   \<and> final_output_path ''/pics/b.png'' headless_options ''jpeg'' = ''/pics/b-tiny.jpeg''
   \<and> image_open demo_env demo_world ''/pics/a.png'' = Inr demo_image
   \<and> fst (derive_target demo_env demo_world ''/pics/a.png'' headless_options) = (''png'', False)"
proof -
  have auto: "truthy (opt_auto_convert_png headless_options)"
    and keep: "keeps_original_format headless_options"
    and extb: "lower (snd (splitext (basename ''/pics/b.png''))) = ''.png''"
    and exta: "lower (snd (splitext (basename ''/pics/a.png''))) = ''.png''"
    and imgb: "image_open demo_env demo_world ''/pics/b.png'' = Inr opaque_image"
    and imga: "image_open demo_env demo_world ''/pics/a.png'' = Inr demo_image"
    and fin: "final_output_path ''/pics/b.png'' headless_options ''jpeg'' = ''/pics/b-tiny.jpeg''"
    by code_simp+
  have opq: "(mode opaque_image = ''P'' \<longrightarrow> \<not> info_transparency opaque_image)
      \<and> (''A'' \<in> set (getbands opaque_image) \<longrightarrow>
           (\<exists>samples. getchannel_A_getdata opaque_image = Inr samples
                      \<and> (\<forall>s \<in> set samples. s = 255)))"
    by (simp add: opaque_image_def)
  have trn: "\<exists>samples. ''A'' \<in> set (getbands demo_image)
               \<and> getchannel_A_getdata demo_image = Inr samples \<and> (\<exists>s \<in> set samples. s < 255)"
    by (simp add: demo_image_def)
  from opq opaque_png_becomes_jpeg [OF auto extb keep imgb]
  have b: "fst (derive_target demo_env demo_world ''/pics/b.png'' headless_options) = (''jpeg'', True)"
    by blast
  from trn opaque_png_becomes_jpeg [OF auto exta keep imga]
  have a: "fst (derive_target demo_env demo_world ''/pics/a.png'' headless_options) = (''png'', False)"
    by blast
  from a b imga imgb fin show ?thesis by simp
qed

lemma derive_target_world:
  "files (snd (derive_target e w file_path opts)) = files w
   \<and> calls (snd (derive_target e w file_path opts)) = calls w
   \<and> seed (snd (derive_target e w file_path opts)) = seed w"
  by (auto simp: derive_target_def is_png_fully_opaque_def log_error_def Let_def split_beta
           split: sum.splits)

lemma derive_target_converting:
  "fst (fst (derive_target e w file_path opts)) \<noteq> own_format file_path
   \<Longrightarrow> snd (fst (derive_target e w file_path opts))"
  by (auto simp: derive_target_def own_format_def Let_def split_beta split: if_splits)

text \<open>
  C6. When the options ask to overwrite the file and the derived target format differs
  from the file's own format (by an explicit request or by the automatic conversion of
  an opaque PNG), \<open>process_file\<close> returns the failure with the overwrite-format message.
  No command has been run, no temporary name has been drawn, and the filesystem, the
  original file included, is as it was.
\<close>

theorem overwrite_with_format_change_fails:
  assumes "truthy (opt_overwrite opts)"
    and "fst (fst (derive_target e w file_path opts)) \<noteq> own_format file_path"
  shows "fst (process_file e w file_path opts) = Inr (False, overwrite_format_error)
         \<and> files (snd (process_file e w file_path opts)) = files w
         \<and> calls (snd (process_file e w file_path opts)) = calls w
         \<and> seed (snd (process_file e w file_path opts)) = seed w"
proof -
  from assms(2) have "snd (fst (derive_target e w file_path opts))"
    by (rule derive_target_converting)
  with assms(1) have
    "process_file e w file_path opts =
       (Inr (False, overwrite_format_error),
        log_error (snd (derive_target e w file_path opts)) overwrite_format_error)"
    by (simp add: process_file_def Let_def split_beta)
  then show ?thesis
    by (simp add: log_error_def derive_target_world)
qed

theorem overwrite_with_format_change_fails_witness:
  "truthy (opt_overwrite overwrite_options)
   \<and> fst (fst (derive_target demo_env demo_world ''/pics/b.png'' overwrite_options)) = ''jpeg''
   \<and> own_format ''/pics/b.png'' = ''png''
   \<and> fst (process_file demo_env demo_world ''/pics/b.png'' overwrite_options)
       = Inr (False, overwrite_format_error)
   \<and> files (snd (process_file demo_env demo_world ''/pics/b.png'' overwrite_options))
       = files demo_world"
proof -
  have t: "truthy (opt_overwrite overwrite_options)"
    by code_simp
  have d: "fst (fst (derive_target demo_env demo_world ''/pics/b.png'' overwrite_options)) = ''jpeg''"
    by code_simp
  have o: "own_format ''/pics/b.png'' = ''png''"
    by code_simp
  from d o have ne: "fst (fst (derive_target demo_env demo_world ''/pics/b.png'' overwrite_options))
                       \<noteq> own_format ''/pics/b.png''"
    by simp
  show ?thesis
    using t d o overwrite_with_format_change_fails [OF t ne]
    by simp
qed

section \<open>Properties of the PNG encoder\<close>

lemma get_tool_path_found:
  "tool_exists e (tool_path e n) \<Longrightarrow> get_tool_path e w n = (Some (tool_path e n), w)"
  by (simp add: get_tool_path_def tool_path_def)

lemma run_tool_calls: "calls (snd (run_tool e w exe args)) = calls w @ [exe # args]"
  by (auto simp: run_tool_def Let_def log_error_def split_beta split: proc.splits exn.splits)

lemma os_remove_exists:
  "path_exists w p \<Longrightarrow> os_remove w p = Inr (w\<lparr>files := (files w)(p := None)\<rparr>)"
  by (auto simp: path_exists_def os_remove_def)

lemma compress_png_tools:
  assumes "tool_exists e (tool_path e ''pngquant.exe'')"
    and "tool_exists e (tool_path e ''zopflipng.exe'')"
  shows "compress_png e w in_path out_path quality_range use_zopfli =
     (let temp_path = png_temp_path e out_path use_zopfli;
          (r, w3) = compress_png_try e w (tool_path e ''pngquant.exe'') in_path out_path
                      quality_range use_zopfli temp_path
      in if use_zopfli \<and> path_exists w3 temp_path
         then (r, w3\<lparr>files := (files w3)(temp_path := None)\<rparr>)
         else (r, w3))"
proof (cases use_zopfli)
  case True
  with assms show ?thesis
    by (simp add: compress_png_def get_tool_path_found Let_def split_beta os_remove_exists)
next
  case False
  with assms show ?thesis
    by (simp add: compress_png_def get_tool_path_found Let_def split_beta)
qed

lemma compress_png_try_optimized:
  assumes zp: "tool_exists e (tool_path e ''zopflipng.exe'')"
    and ao: "fst (quantizer_stage e w in_path out_path quality_range use_zopfli)
               = (True, already_optimized)"
  shows "compress_png_try e w (tool_path e ''pngquant.exe'') in_path out_path quality_range
           use_zopfli (png_temp_path e out_path use_zopfli) =
     (let w1 = snd (quantizer_stage e w in_path out_path quality_range use_zopfli)
      in if \<not> use_zopfli then
           (case copy2 w1 in_path out_path of
              Inl ex \<Rightarrow> (Inl ex, w1)
            | Inr w2 \<Rightarrow> (Inr (True, already_optimized), w2))
         else (Inr (fst (run_tool e w1 (tool_path e ''zopflipng.exe'')
                           (zopflipng_args in_path out_path))),
               snd (run_tool e w1 (tool_path e ''zopflipng.exe'')
                           (zopflipng_args in_path out_path))))"
proof -
  obtain w1 where q: "run_tool e w (tool_path e ''pngquant.exe'')
       (pngquant_args quality_range (png_temp_path e out_path use_zopfli) in_path)
       = ((True, already_optimized), w1)"
    using ao unfolding quantizer_stage_def
    by (metis prod.collapse)
  show ?thesis
  proof (cases use_zopfli)
    case True
    with q zp show ?thesis
      by (simp add: compress_png_try_def quantizer_stage_def run_zopflipng_def
            get_tool_path_found split_beta)
  next
    case False
    with q show ?thesis
      by (simp add: compress_png_try_def quantizer_stage_def split: sum.splits)
  qed
qed

lemma run_tool_exit_zero:
  "fst (subprocess_run e (exe # args) (files w)) = Completed 0 out err
   \<Longrightarrow> fst (run_tool e w exe args) = (True, ''Success'')"
  by (simp add: run_tool_def Let_def split_beta)

lemma demo_tools: "tool_exists demo_env p"
  by (simp add: demo_env_def)

text \<open>
  C5. With the maximum-compression pass enabled and both tools present, if the quantizer
  reports Already Optimized then the next command run is the further-compression tool
  with the original input path as its source and the output path as its destination.
\<close>

theorem optimized_png_recompressed_from_input:
  assumes "tool_exists e (tool_path e ''pngquant.exe'')"
    and "tool_exists e (tool_path e ''zopflipng.exe'')"
    and "fst (quantizer_stage e w in_path out_path quality_range True) = (True, already_optimized)"
  shows "calls (snd (compress_png e w in_path out_path quality_range True)) =
           calls w @
           [tool_path e ''pngquant.exe''
              # pngquant_args quality_range (png_temp_path e out_path True) in_path,
            [tool_path e ''zopflipng.exe'', ''-y'', ''--iterations=15'', in_path, out_path]]"
  using assms
  by (simp add: compress_png_tools compress_png_try_optimized Let_def split_beta run_tool_calls
        quantizer_stage_def zopflipng_args_def)

theorem optimized_png_recompressed_from_input_witness:
  "fst (quantizer_stage demo_env demo_world ''/pics/a.png'' ''/tmp/out.png'' ''60-80'' True)
     = (True, already_optimized)
   \<and> calls (snd (compress_png demo_env demo_world ''/pics/a.png'' ''/tmp/out.png'' ''60-80'' True))
     = [[''/app/tools/pngquant.exe'', ''--force'', ''--strip'', ''--quality'', ''60-80'',
         ''--speed=1'', ''--output'', ''/tmp/quant_out.png'', ''/pics/a.png''],
        [''/app/tools/zopflipng.exe'', ''-y'', ''--iterations=15'', ''/pics/a.png'',
         ''/tmp/out.png'']]"
proof -
  have q: "fst (quantizer_stage demo_env demo_world ''/pics/a.png'' ''/tmp/out.png'' ''60-80'' True)
     = (True, already_optimized)"
    by code_simp
  have n: "calls demo_world = []"
       "tool_path demo_env ''pngquant.exe'' = ''/app/tools/pngquant.exe''"
       "tool_path demo_env ''zopflipng.exe'' = ''/app/tools/zopflipng.exe''"
       "pngquant_args ''60-80'' (png_temp_path demo_env ''/tmp/out.png'' True) ''/pics/a.png''
          = [''--force'', ''--strip'', ''--quality'', ''60-80'', ''--speed=1'', ''--output'',
             ''/tmp/quant_out.png'', ''/pics/a.png'']"
    by code_simp+
  show ?thesis
    using q optimized_png_recompressed_from_input [OF demo_tools demo_tools q]
    by (simp add: n)
qed

text \<open>
  C2, as the code has it. The quantizer reports Already Optimized and both tools are
  present. With the maximum-compression pass disabled, and the input still there to be
  copied to a different output path, \<open>compress_png\<close> returns success with the message
  Already Optimized. With the pass enabled it returns the outcome of the
  further-compression tool run on the original input, which is success with the message
  Success when that tool exits with code 0.
\<close>

theorem optimized_png_outcome:
  assumes "tool_exists e (tool_path e ''pngquant.exe'')"
    and "tool_exists e (tool_path e ''zopflipng.exe'')"
    and "fst (quantizer_stage e w in_path out_path quality_range use_zopfli)
           = (True, already_optimized)"
  shows "(\<not> use_zopfli
            \<and> path_exists (snd (quantizer_stage e w in_path out_path quality_range use_zopfli)) in_path
            \<and> in_path \<noteq> out_path
          \<longrightarrow> fst (compress_png e w in_path out_path quality_range use_zopfli)
                = Inr (True, already_optimized))
       \<and> (use_zopfli
          \<longrightarrow> fst (compress_png e w in_path out_path quality_range use_zopfli)
                = Inr (fst (run_tool e
                              (snd (quantizer_stage e w in_path out_path quality_range use_zopfli))
                              (tool_path e ''zopflipng.exe'')
                              (zopflipng_args in_path out_path))))
       \<and> (use_zopfli
            \<and> fst (subprocess_run e
                      (tool_path e ''zopflipng.exe'' # zopflipng_args in_path out_path)
                      (files (snd (quantizer_stage e w in_path out_path quality_range use_zopfli))))
                = Completed 0 out err
          \<longrightarrow> fst (compress_png e w in_path out_path quality_range use_zopfli)
                = Inr (True, ''Success''))"
proof (intro conjI impI)
  assume "\<not> use_zopfli
            \<and> path_exists (snd (quantizer_stage e w in_path out_path quality_range use_zopfli)) in_path
            \<and> in_path \<noteq> out_path"
  with assms show "fst (compress_png e w in_path out_path quality_range use_zopfli)
                = Inr (True, already_optimized)"
    by (auto simp: compress_png_tools compress_png_try_optimized Let_def split_beta
          copy2_def path_exists_def split: option.splits)
next
  assume z: "use_zopfli"
  with assms show "fst (compress_png e w in_path out_path quality_range use_zopfli)
                = Inr (fst (run_tool e
                              (snd (quantizer_stage e w in_path out_path quality_range use_zopfli))
                              (tool_path e ''zopflipng.exe'')
                              (zopflipng_args in_path out_path)))"
    by (simp add: compress_png_tools compress_png_try_optimized Let_def split_beta)
next
  assume z: "use_zopfli
            \<and> fst (subprocess_run e
                      (tool_path e ''zopflipng.exe'' # zopflipng_args in_path out_path)
                      (files (snd (quantizer_stage e w in_path out_path quality_range use_zopfli))))
                = Completed 0 out err"
  then have "fst (run_tool e (snd (quantizer_stage e w in_path out_path quality_range use_zopfli))
                    (tool_path e ''zopflipng.exe'') (zopflipng_args in_path out_path))
               = (True, ''Success'')"
    using run_tool_exit_zero by blast
  with z assms show "fst (compress_png e w in_path out_path quality_range use_zopfli)
                = Inr (True, ''Success'')"
    by (simp add: compress_png_tools compress_png_try_optimized Let_def split_beta)
qed

theorem optimized_png_outcome_witness:
  "fst (quantizer_stage demo_env demo_world ''/pics/a.png'' ''/tmp/out.png'' ''60-80'' False)
     = (True, already_optimized)
   \<and> fst (compress_png demo_env demo_world ''/pics/a.png'' ''/tmp/out.png'' ''60-80'' False)
     = Inr (True, already_optimized)
   \<and> fst (quantizer_stage demo_env demo_world ''/pics/a.png'' ''/tmp/out.png'' ''60-80'' True)
     = (True, already_optimized)
   \<and> fst (compress_png demo_env demo_world ''/pics/a.png'' ''/tmp/out.png'' ''60-80'' True)
     = Inr (True, ''Success'')"
proof -
  have q1: "fst (quantizer_stage demo_env demo_world ''/pics/a.png'' ''/tmp/out.png'' ''60-80'' False)
     = (True, already_optimized)"
    by code_simp
  have c1: "path_exists (snd (quantizer_stage demo_env demo_world ''/pics/a.png'' ''/tmp/out.png''
                                 ''60-80'' False)) ''/pics/a.png''"
    by code_simp
  have d1: "''/pics/a.png'' \<noteq> ''/tmp/out.png''"
    by simp
  have q2: "fst (quantizer_stage demo_env demo_world ''/pics/a.png'' ''/tmp/out.png'' ''60-80'' True)
     = (True, already_optimized)"
    by code_simp
  have z2: "fst (subprocess_run demo_env
                   (tool_path demo_env ''zopflipng.exe'' # zopflipng_args ''/pics/a.png'' ''/tmp/out.png'')
                   (files (snd (quantizer_stage demo_env demo_world ''/pics/a.png'' ''/tmp/out.png''
                                  ''60-80'' True))))
              = Completed 0 [] []"
    by code_simp
  from c1 d1 optimized_png_outcome [OF demo_tools demo_tools q1, of "[]" "[]"]
  have r1: "fst (compress_png demo_env demo_world ''/pics/a.png'' ''/tmp/out.png'' ''60-80'' False)
              = Inr (True, already_optimized)"
    by blast
  from z2 optimized_png_outcome [OF demo_tools demo_tools q2, of "[]" "[]"]
  have r2: "fst (compress_png demo_env demo_world ''/pics/a.png'' ''/tmp/out.png'' ''60-80'' True)
              = Inr (True, ''Success'')"
    by blast
  from q1 r1 q2 r2 show ?thesis by blast
qed

text \<open>
  C2 as stated does not hold: with the pass enabled the quantizer reports Already
  Optimized, the further-compression tool succeeds, and the message returned is Success.
\<close>

theorem optimized_png_message_counterexample:
  "fst (quantizer_stage demo_env demo_world ''/pics/a.png'' ''/tmp/out.png'' ''60-80'' True)
     = (True, already_optimized)
   \<and> fst (compress_png demo_env demo_world ''/pics/a.png'' ''/tmp/out.png'' ''60-80'' True)
     = Inr (True, ''Success'')
   \<and> fst (compress_png demo_env demo_world ''/pics/a.png'' ''/tmp/out.png'' ''60-80'' True)
     \<noteq> Inr (True, already_optimized)"
  by code_simp

section \<open>Properties of process\_file\<close>







text \<open>
  C1 asks that every temporary file be gone when \<open>process_file\<close> returns. On the PNG
  path where the quantizer reports Already Optimized and the maximum-compression pass is
  off, the call succeeds, the temporary output file did not exist before the call and
  holds a copy of the input after it, and nothing is written to the output path.
\<close>

theorem already_optimized_png_leaks_temp_output:
  "fst (process_file demo_env demo_world ''/pics/a.png'' headless_options)
     = Inr (True, quoted ''a.png'' @ '' is already optimized.'')
   \<and> files demo_world ''/tmp/tmp0.png'' = None
   \<and> files (snd (process_file demo_env demo_world ''/pics/a.png'' headless_options)) ''/tmp/tmp0.png''
     = Some [1, 2, 3]
   \<and> files (snd (process_file demo_env demo_world ''/pics/a.png'' headless_options)) ''/pics/a-tiny.png''
     = None"
  by code_simp

end
